theory Spec2Isabelle
  imports Complex_Main "HOL-Library.Multiset"
begin

text \<open>
  The documentation crawler of \<open>docurag\<close>: the chunker and the content extractor of
  \<open>text_extractor.py\<close>, the data model of \<open>models.py\<close>, the traversal engine of
  \<open>docu_crawler.py\<close> and the entry point \<open>crawl.py\<close>, with the places where the older
  script \<open>web_crawler.py\<close> does something else.
\<close>

section \<open>Strings\<close>

text \<open>
  Python strings are modelled as \<^typ>\<open>string\<close>; a character stands for the code point of
  the same number (U+0000 to U+00FF), so \<open>length\<close> is Python's \<open>len\<close>.
  \<open>isspace\<close> is \<open>str.isspace\<close> on one character of that range: the characters that
  \<open>str.split()\<close> separates words at and that \<open>str.strip()\<close> removes.
\<close>

definition isspace :: "char \<Rightarrow> bool" where
  "isspace c \<longleftrightarrow>
     c = CHR 0x09 \<or> c = CHR 0x0A \<or> c = CHR 0x0B \<or> c = CHR 0x0C \<or> c = CHR 0x0D \<or>
     c = CHR 0x1C \<or> c = CHR 0x1D \<or> c = CHR 0x1E \<or> c = CHR 0x1F \<or> c = CHR 0x20 \<or>
     c = CHR 0x85 \<or> c = CHR 0xA0"

text \<open>\<open>s.strip()\<close>: whitespace removed at both ends.\<close>

definition str_strip :: "string \<Rightarrow> string" where
  "str_strip s = rev (dropWhile isspace (rev (dropWhile isspace s)))"

text \<open>
  \<open>s.split()\<close>: the maximal runs of non-whitespace characters, in order. The first
  argument of \<open>split_from\<close> is the word being read.
\<close>

fun split_from :: "string \<Rightarrow> string \<Rightarrow> string list" where
  "split_from w [] = (if w = [] then [] else [w])"
| "split_from w (c # cs) =
     (if isspace c then (if w = [] then split_from [] cs else w # split_from [] cs)
      else split_from (w @ [c]) cs)"

definition str_split :: "string \<Rightarrow> string list" where
  "str_split s = split_from [] s"

text \<open>\<open>sep.join(xs)\<close>.\<close>

fun str_join :: "string \<Rightarrow> string list \<Rightarrow> string" where
  "str_join sep [] = []"
| "str_join sep [x] = x"
| "str_join sep (x # y # ys) = x @ sep @ str_join sep (y # ys)"

text \<open>\<open>s.startswith(p)\<close> and \<open>s.endswith(p)\<close>.\<close>

definition startswith :: "string \<Rightarrow> string \<Rightarrow> bool" where
  "startswith s p \<longleftrightarrow> take (length p) s = p"

definition endswith :: "string \<Rightarrow> string \<Rightarrow> bool" where
  "endswith s p \<longleftrightarrow> startswith (rev s) (rev p)"

text \<open>
  \<open>s.splitlines()\<close>: the lines of \<open>s\<close> without their line breaks. A line break is one of
  the characters of \<open>is_linebreak\<close>, or a carriage return followed by a line feed; a
  final line break opens no further line. The first argument of \<open>splitlines_from\<close> is the
  line being read.
\<close>

definition is_linebreak :: "char \<Rightarrow> bool" where
  "is_linebreak c \<longleftrightarrow>
     c = CHR 0x0A \<or> c = CHR 0x0B \<or> c = CHR 0x0C \<or> c = CHR 0x0D \<or>
     c = CHR 0x1C \<or> c = CHR 0x1D \<or> c = CHR 0x1E \<or> c = CHR 0x85"

fun splitlines_from :: "string \<Rightarrow> string \<Rightarrow> string list" where
  "splitlines_from l [] = (if l = [] then [] else [l])"
| "splitlines_from l [c] = (if is_linebreak c then [l] else [l @ [c]])"
| "splitlines_from l (c # d # ds) =
     (if c = CHR 0x0D \<and> d = CHR 0x0A then l # splitlines_from [] ds
      else if is_linebreak c then l # splitlines_from [] (d # ds)
      else splitlines_from (l @ [c]) (d # ds))"

definition splitlines :: "string \<Rightarrow> string list" where
  "splitlines s = splitlines_from [] s"

text \<open>A word: not empty, and no whitespace in it.\<close>

definition word_ok :: "string \<Rightarrow> bool" where
  "word_ok w \<longleftrightarrow> w \<noteq> [] \<and> list_all (\<lambda>c. \<not> isspace c) w"

section \<open>The chunker: \<open>TextExtractor.split_text_on_words\<close>\<close>

text \<open>
  \<open>web_crawler.py\<close> has the same function, statement for statement, as a method of its
  crawler. The loop over \<open>words\<close> of \<open>split_text_on_words\<close>, with the loop's two variables
  \<open>chunks\<close> and \<open>current_chunk\<close> as arguments and as result. An empty Python string is
  false, so \<open>if current_chunk\<close> is \<open>cur \<noteq> []\<close>.
\<close>

fun pack_words :: "int \<Rightarrow> string list \<Rightarrow> string \<Rightarrow> string list \<Rightarrow> string list \<times> string" where
  "pack_words max_length chunks cur [] = (chunks, cur)"
| "pack_words max_length chunks cur (word # ws) =
     (if int (length cur) + int (length word) + 1 > max_length then
        (if cur \<noteq> [] then pack_words max_length (chunks @ [str_strip cur]) word ws
         else pack_words max_length (chunks @ [word]) cur ws)
      else
        (if cur \<noteq> [] then pack_words max_length chunks (cur @ '' '' @ word) ws
         else pack_words max_length chunks word ws))"

definition split_text_on_words :: "string \<Rightarrow> int \<Rightarrow> string" where
  "split_text_on_words text max_length =
     (if int (length text) \<le> max_length then text
      else
        (case pack_words max_length [] [] (str_split text) of
           (chunks, cur) \<Rightarrow>
             str_join [CHR 0x0A, CHR 0x0A] (if cur \<noteq> [] then chunks @ [str_strip cur] else chunks)))"

section \<open>The parse tree\<close>

text \<open>
  The tree that \<open>BeautifulSoup(response.content, 'html.parser')\<close> returns, with the
  operations of the library (Beautiful Soup 4.10 and later) that the extractor and the
  crawler call. A node is an element (\<open>Tag\<close>: its name, its attributes as the dictionary
  \<open>attrs\<close>, its children), a string of the class \<open>NavigableString\<close> itself, or a string
  of one of its subclasses (\<open>Special\<close>). The parser gives the strings inside \<open>script\<close>,
  \<open>style\<close>, \<open>template\<close>, \<open>rt\<close> and \<open>rp\<close> elements the classes \<open>Script\<close>,
  \<open>Stylesheet\<close>, \<open>TemplateString\<close>, \<open>RubyTextString\<close> and \<open>RubyParenthesisString\<close>.
  The document itself is a \<open>Tag\<close> named \<open>[document]\<close>.
\<close>

datatype string_class =
  CData | Comment | Declaration | Doctype | ProcessingInstruction |
  Script | Stylesheet | TemplateString | RubyTextString | RubyParenthesisString

datatype node =
  Tag string "(string \<times> string) list" "node list"
| NavigableString string
| Special string_class string

fun tag_named :: "string list \<Rightarrow> node \<Rightarrow> bool" where
  "tag_named names (Tag n attrs cs) = (n \<in> set names)"
| "tag_named names (NavigableString s) = False"
| "tag_named names (Special c s) = False"

fun contents :: "node \<Rightarrow> node list" where
  "contents (Tag n attrs cs) = cs"
| "contents (NavigableString s) = []"
| "contents (Special c s) = []"

text \<open>
  The descendants of a list of siblings in document order, each with the names of its
  ancestors (nearest first) and with its following siblings (\<open>next_siblings\<close>).
\<close>

fun walk :: "string list \<Rightarrow> node list \<Rightarrow> (string list \<times> node \<times> node list) list" where
  "walk anc [] = []"
| "walk anc (Tag n attrs cs # rest) =
     (anc, Tag n attrs cs, rest) # walk (n # anc) cs @ walk anc rest"
| "walk anc (NavigableString s # rest) = (anc, NavigableString s, rest) # walk anc rest"
| "walk anc (Special c s # rest) = (anc, Special c s, rest) # walk anc rest"

text \<open>\<open>x.find_all(names)\<close> and \<open>x.find(names)\<close>.\<close>

definition find_all :: "string list \<Rightarrow> node \<Rightarrow> node list" where
  "find_all names elem = [x. (anc, x, sibs) \<leftarrow> walk [] (contents elem), tag_named names x]"

definition find :: "string list \<Rightarrow> node \<Rightarrow> node option" where
  "find names elem = (case find_all names elem of [] \<Rightarrow> None | x # xs \<Rightarrow> Some x)"

text \<open>
  \<open>soup.find('div', class_='content')\<close>: the first \<open>div\<close> one of whose classes (the
  whitespace-separated words of its \<open>class\<close> attribute) is \<open>content\<close>.
\<close>

fun has_class :: "string \<Rightarrow> node \<Rightarrow> bool" where
  "has_class c (Tag n attrs cs) =
     (case map_of attrs ''class'' of None \<Rightarrow> False | Some v \<Rightarrow> c \<in> set (str_split v))"
| "has_class c (NavigableString s) = False"
| "has_class c (Special k s) = False"

definition find_div_content :: "node \<Rightarrow> node option" where
  "find_div_content elem =
     (case filter (has_class ''content'') (find_all [''div''] elem) of
        [] \<Rightarrow> None | x # xs \<Rightarrow> Some x)"

text \<open>
  The strings that \<open>get_text\<close> of an element named \<open>n\<close> takes from among the strings
  below it (the element's \<open>interesting_string_types\<close>): for \<open>script\<close>, \<open>style\<close>,
  \<open>template\<close>, \<open>rt\<close> and \<open>rp\<close> the strings of the element's own class; for every other
  element the strings of the classes \<open>NavigableString\<close> and \<open>CData\<close>. So the text of a
  script, a style sheet or a template is no part of the text of the elements around it,
  and a comment, a declaration, a doctype or a processing instruction is part of no text.
\<close>

fun interesting :: "string \<Rightarrow> node \<Rightarrow> string list" where
  "interesting n (Tag m attrs cs) = []"
| "interesting n (NavigableString s) =
     (if n \<in> set [''script'', ''style'', ''template'', ''rt'', ''rp''] then [] else [s])"
| "interesting n (Special c s) =
     (if n = ''script'' then (if c = Script then [s] else [])
      else if n = ''style'' then (if c = Stylesheet then [s] else [])
      else if n = ''template'' then (if c = TemplateString then [s] else [])
      else if n = ''rt'' then (if c = RubyTextString then [s] else [])
      else if n = ''rp'' then (if c = RubyParenthesisString then [s] else [])
      else (if c = CData then [s] else []))"

text \<open>
  The strings of \<open>x.get_text\<close>, in document order: for an element those below it that
  are interesting to it; for a string the string itself, when its class is
  \<open>NavigableString\<close> or \<open>CData\<close>. Then \<open>x.get_text()\<close>, and
  \<open>x.get_text(separator=sep, strip=True)\<close>, which strips every string on its own, drops
  the empty ones and joins the rest with \<open>sep\<close>.
\<close>

fun all_strings :: "node \<Rightarrow> string list" where
  "all_strings (Tag n attrs cs) = concat [interesting n x. (anc, x, sibs) \<leftarrow> walk [] cs]"
| "all_strings (NavigableString s) = [s]"
| "all_strings (Special c s) = (if c = CData then [s] else [])"

definition get_text :: "node \<Rightarrow> string" where
  "get_text x = concat (all_strings x)"

definition get_text_strip :: "string \<Rightarrow> node \<Rightarrow> string" where
  "get_text_strip sep x = str_join sep (filter (\<lambda>s. s \<noteq> []) (map str_strip (all_strings x)))"

text \<open>
  \<open>for x in soup(names): x.decompose()\<close>: every element with one of the names is taken
  out of the tree, with all that it contains. The document is changed in place; the
  model returns the changed document.
\<close>

fun decompose_all :: "string list \<Rightarrow> node \<Rightarrow> node" where
  "decompose_all names (Tag n attrs cs) =
     Tag n attrs (map (decompose_all names) (filter (\<lambda>c. \<not> tag_named names c) cs))"
| "decompose_all names (NavigableString s) = NavigableString s"
| "decompose_all names (Special c s) = Special c s"

section \<open>The content extractor: \<open>TextExtractor\<close>\<close>

text \<open>
  The inner loop of \<open>extract_text_content\<close> over \<open>heading.next_siblings\<close>, which fills
  \<open>content_elements\<close>. A string has no name (its \<open>name\<close> is \<open>None\<close>) and, like an
  element, it has the method \<open>get_text\<close>, so the first of the two branches takes its
  text.
\<close>

fun content_elements :: "node list \<Rightarrow> string list" where
  "content_elements [] = []"
| "content_elements (Tag n attrs cs # rest) =
     (if n \<noteq> [] \<and> n \<in> set [''h1'', ''h2'', ''h3'', ''h4''] then []
      else
        (let text = get_text_strip [] (Tag n attrs cs)
         in if text \<noteq> [] then text # content_elements rest else content_elements rest))"
| "content_elements (NavigableString s # rest) =
     (let text = get_text_strip [] (NavigableString s)
      in if text \<noteq> [] then text # content_elements rest else content_elements rest)"
| "content_elements (Special c s # rest) =
     (let text = get_text_strip [] (Special c s)
      in if text \<noteq> [] then text # content_elements rest else content_elements rest)"

text \<open>The body of the loop over \<open>headings\<close>: the sections that one heading appends.\<close>

definition heading_section :: "node \<Rightarrow> node list \<Rightarrow> string list" where
  "heading_section heading next_siblings =
     (let heading_text = get_text_strip [] heading;
          content_text = str_join [CHR 0x0A] (content_elements next_siblings)
      in if heading_text \<noteq> [] \<or> content_text \<noteq> [] then
           [[CHR 0x0A, CHR 0x0A] @ heading_text @
              (if content_text \<noteq> [] then [CHR 0x0A] @ content_text else [])]
         else [])"

text \<open>
  \<open>extract_text_content(soup, max_length)\<close>. It returns the content, and here also the
  document as the call leaves it: without its \<open>script\<close>, \<open>style\<close>, \<open>nav\<close>, \<open>footer\<close>
  and \<open>header\<close> elements.
\<close>

definition extract_text_content :: "node \<Rightarrow> int \<Rightarrow> string \<times> node" where
  "extract_text_content soup0 max_length =
     (let soup = decompose_all [''script'', ''style'', ''nav'', ''footer'', ''header''] soup0;
          main_content =
            (case find [''main''] soup of Some m \<Rightarrow> m
             | None \<Rightarrow>
                 (case find [''article''] soup of Some a \<Rightarrow> a
                  | None \<Rightarrow> (case find_div_content soup of Some d \<Rightarrow> d | None \<Rightarrow> soup)));
          headings =
            [(x, sibs). (anc, x, sibs) \<leftarrow> walk [] (contents main_content),
               tag_named [''h1'', ''h2'', ''h3'', ''h4'', ''h5'', ''h6''] x]
      in if headings = [] then
           (let text = get_text_strip [CHR 0x0A] main_content;
                lines = [str_strip line. line \<leftarrow> splitlines text, str_strip line \<noteq> []];
                content = [CHR 0x0A, CHR 0x0A] @ str_join [CHR 0x0A] lines
            in (split_text_on_words content max_length, soup))
         else
           (let sections = concat (map (\<lambda>(heading, sibs). heading_section heading sibs) headings);
                content = (if sections \<noteq> [] then concat sections else [CHR 0x0A, CHR 0x0A])
            in (split_text_on_words content max_length, soup)))"

text \<open>
  \<open>x.find_all(names)\<close> with, for each element found, the names of its parents:
  \<open>x.find_parent('pre')\<close> finds an element exactly when \<open>pre\<close> is among them.
\<close>

definition find_all_with_parents :: "string list \<Rightarrow> node \<Rightarrow> (string list \<times> node) list" where
  "find_all_with_parents names elem =
     [(parents, x). (parents, x, sibs) \<leftarrow> walk [] (contents elem), tag_named names x]"

text \<open>
  \<open>extract_code_blocks(soup)\<close>: the loop over \<open>soup.find_all('pre')\<close>, then the loop
  over \<open>soup.find_all('code')\<close>, both appending to \<open>code_blocks\<close>.
\<close>

fun collect_pre :: "node list \<Rightarrow> string list \<Rightarrow> string list" where
  "collect_pre [] code_blocks = code_blocks"
| "collect_pre (pre # rest) code_blocks =
     (let code_text = str_strip (get_text pre)
      in if code_text \<noteq> [] then collect_pre rest (code_blocks @ [code_text])
         else collect_pre rest code_blocks)"

fun collect_code :: "(string list \<times> node) list \<Rightarrow> string list \<Rightarrow> string list" where
  "collect_code [] code_blocks = code_blocks"
| "collect_code ((parents, code) # rest) code_blocks =
     (if ''pre'' \<in> set parents then collect_code rest code_blocks
      else
        (let code_text = str_strip (get_text code)
         in if code_text \<noteq> [] then collect_code rest (code_blocks @ [code_text])
            else collect_code rest code_blocks))"

definition extract_code_blocks :: "node \<Rightarrow> string list" where
  "extract_code_blocks soup =
     collect_code (find_all_with_parents [''code''] soup) (collect_pre (find_all [''pre''] soup) [])"

text \<open>
  The siblings at which the loop over \<open>heading.next_siblings\<close> stops, here and in the
  older script below.
\<close>

definition ends_section :: "node \<Rightarrow> bool" where
  "ends_section x = tag_named [''h1'', ''h2'', ''h3'', ''h4''] x"

definition legacy_ends_section :: "node \<Rightarrow> bool" where
  "legacy_ends_section x = tag_named [''h1'', ''h2'', ''h3'', ''h4'', ''h5'', ''h6''] x"

subsection \<open>The same two places in the older script \<open>web_crawler.py\<close>\<close>

text \<open>
  \<open>web_crawler.py\<close> holds an older copy of the crawler and of the extractor, as
  methods of its crawler. Its \<open>extract_text_content\<close> is the one above but for the
  names at which the loop over \<open>heading.next_siblings\<close> stops, and for \<open>max_length\<close>,
  which is 5000 always; its \<open>extract_code_blocks\<close> is the one above but for the text it
  takes, \<open>get_text(strip=True)\<close>.
\<close>

fun legacy_content_elements :: "node list \<Rightarrow> string list" where
  "legacy_content_elements [] = []"
| "legacy_content_elements (Tag n attrs cs # rest) =
     (if n \<noteq> [] \<and> n \<in> set [''h1'', ''h2'', ''h3'', ''h4'', ''h5'', ''h6''] then []
      else
        (let text = get_text_strip [] (Tag n attrs cs)
         in if text \<noteq> [] then text # legacy_content_elements rest
            else legacy_content_elements rest))"
| "legacy_content_elements (NavigableString s # rest) =
     (let text = get_text_strip [] (NavigableString s)
      in if text \<noteq> [] then text # legacy_content_elements rest
         else legacy_content_elements rest)"
| "legacy_content_elements (Special c s # rest) =
     (let text = get_text_strip [] (Special c s)
      in if text \<noteq> [] then text # legacy_content_elements rest
         else legacy_content_elements rest)"

definition legacy_heading_section :: "node \<Rightarrow> node list \<Rightarrow> string list" where
  "legacy_heading_section heading next_siblings =
     (let heading_text = get_text_strip [] heading;
          content_text = str_join [CHR 0x0A] (legacy_content_elements next_siblings)
      in if heading_text \<noteq> [] \<or> content_text \<noteq> [] then
           [[CHR 0x0A, CHR 0x0A] @ heading_text @
              (if content_text \<noteq> [] then [CHR 0x0A] @ content_text else [])]
         else [])"

definition legacy_extract_text_content :: "node \<Rightarrow> string \<times> node" where
  "legacy_extract_text_content soup0 =
     (let soup = decompose_all [''script'', ''style'', ''nav'', ''footer'', ''header''] soup0;
          main_content =
            (case find [''main''] soup of Some m \<Rightarrow> m
             | None \<Rightarrow>
                 (case find [''article''] soup of Some a \<Rightarrow> a
                  | None \<Rightarrow> (case find_div_content soup of Some d \<Rightarrow> d | None \<Rightarrow> soup)));
          headings =
            [(x, sibs). (anc, x, sibs) \<leftarrow> walk [] (contents main_content),
               tag_named [''h1'', ''h2'', ''h3'', ''h4'', ''h5'', ''h6''] x]
      in if headings = [] then
           (let text = get_text_strip [CHR 0x0A] main_content;
                lines = [str_strip line. line \<leftarrow> splitlines text, str_strip line \<noteq> []];
                content = [CHR 0x0A, CHR 0x0A] @ str_join [CHR 0x0A] lines
            in (split_text_on_words content 5000, soup))
         else
           (let sections =
                  concat (map (\<lambda>(heading, sibs). legacy_heading_section heading sibs) headings);
                content = (if sections \<noteq> [] then concat sections else [CHR 0x0A, CHR 0x0A])
            in (split_text_on_words content 5000, soup)))"

fun legacy_collect_pre :: "node list \<Rightarrow> string list \<Rightarrow> string list" where
  "legacy_collect_pre [] code_blocks = code_blocks"
| "legacy_collect_pre (pre # rest) code_blocks =
     (let code_text = get_text_strip [] pre
      in if code_text \<noteq> [] then legacy_collect_pre rest (code_blocks @ [code_text])
         else legacy_collect_pre rest code_blocks)"

fun legacy_collect_code :: "(string list \<times> node) list \<Rightarrow> string list \<Rightarrow> string list" where
  "legacy_collect_code [] code_blocks = code_blocks"
| "legacy_collect_code ((parents, code) # rest) code_blocks =
     (if ''pre'' \<in> set parents then legacy_collect_code rest code_blocks
      else
        (let code_text = get_text_strip [] code
         in if code_text \<noteq> [] then legacy_collect_code rest (code_blocks @ [code_text])
            else legacy_collect_code rest code_blocks))"

definition legacy_extract_code_blocks :: "node \<Rightarrow> string list" where
  "legacy_extract_code_blocks soup =
     legacy_collect_code (find_all_with_parents [''code''] soup)
       (legacy_collect_pre (find_all [''pre''] soup) [])"

section \<open>Data model: \<open>models.py\<close>\<close>

datatype error = ValueError string

record config =
  base_url :: string
  max_depth :: int
  max_pages :: int
  timeout :: int
  rate_limit_delay :: real
  user_agent :: string

definition default_user_agent :: string where
  "default_user_agent = ''Mozilla/5.0 (Windows NT 10.0; Win64; x64) AppleWebKit/537.36''"

text \<open>
  The constructor of the dataclass \<open>CrawlerConfig\<close> with its \<open>__post_init__\<close>: the
  checks in the order of the source, each raising \<open>ValueError\<close>.
\<close>

definition CrawlerConfig :: "string \<Rightarrow> int \<Rightarrow> int \<Rightarrow> int \<Rightarrow> real \<Rightarrow> string \<Rightarrow> error + config" where
  "CrawlerConfig url depth_limit page_limit seconds delay agent =
     (if depth_limit < 0 then Inl (ValueError ''max_depth must be non-negative'')
      else if page_limit < 1 then Inl (ValueError ''max_pages must be at least 1'')
      else if \<not> (startswith url ''http://'' \<or> startswith url ''https://'') then
        Inl (ValueError ''base_url must start with http:// or https://'')
      else if seconds \<le> 0 then Inl (ValueError ''timeout must be positive'')
      else if delay < 0 then Inl (ValueError ''rate_limit_delay must be non-negative'')
      else Inr \<lparr>base_url = url, max_depth = depth_limit, max_pages = page_limit,
                 timeout = seconds, rate_limit_delay = delay, user_agent = agent\<rparr>)"

record CrawledDocument =
  doc_url :: string
  doc_title :: string
  doc_content :: string
  doc_code_blocks :: "string list"
  doc_depth :: int
  doc_crawled_at :: string

text \<open>
  A Python dictionary that is written out as JSON is an object with its keys in
  insertion order; \<open>obj_get k\<close> is the lookup of key \<open>k\<close>, \<open>None\<close> when the object
  has no such key.
\<close>

datatype json = JString string | JInt int | JArray "json list" | JObject "(string \<times> json) list"

fun obj_get :: "string \<Rightarrow> json \<Rightarrow> json option" where
  "obj_get k (JObject kvs) = map_of kvs k"
| "obj_get k (JString s) = None"
| "obj_get k (JInt i) = None"
| "obj_get k (JArray xs) = None"

text \<open>\<open>CrawledDocument.to_dict\<close>.\<close>

definition to_dict :: "CrawledDocument \<Rightarrow> json" where
  "to_dict doc =
     JObject
       [(''url'', JString (doc_url doc)),
        (''title'', JString (doc_title doc)),
        (''content'', JString (doc_content doc)),
        (''code_blocks'', JArray (map JString (doc_code_blocks doc))),
        (''metadata'',
           JObject
             [(''code_blocks'', JArray (map JString (doc_code_blocks doc))),
              (''depth'', JInt (doc_depth doc)),
              (''crawled_at'', JString (doc_crawled_at doc))])]"

text \<open>
  The document that \<open>crawl_page\<close> of the older script \<open>web_crawler.py\<close> stores, and that
  its \<open>main\<close> writes out as it is.
\<close>

definition legacy_document :: "string \<Rightarrow> string \<Rightarrow> string \<Rightarrow> string list \<Rightarrow> int \<Rightarrow> string \<Rightarrow> json" where
  "legacy_document url title_text content code_blocks depth now =
     JObject
       [(''url'', JString url),
        (''title'', JString title_text),
        (''content'', JString content),
        (''metadata'',
           JObject
             [(''code_blocks'', JArray (map JString code_blocks)),
              (''depth'', JInt depth),
              (''crawled_at'', JString now)])]"

section \<open>URLs\<close>

text \<open>
  \<open>urlparse(url).netloc\<close> of the standard library: after a scheme (a letter, then
  letters, digits, \<open>+\<close>, \<open>-\<close> and \<open>.\<close>, up to the first colon) and \<open>//\<close>, the text up
  to the first \<open>/\<close>, \<open>?\<close> or \<open>#\<close>; empty when no \<open>//\<close> follows. The library strips
  control characters first and raises \<open>ValueError\<close> for a malformed bracketed host;
  neither is modelled, so \<open>netloc\<close> is exact for URLs without such characters and
  without brackets.
\<close>

definition ascii_letters :: string where
  "ascii_letters = ''abcdefghijklmnopqrstuvwxyzABCDEFGHIJKLMNOPQRSTUVWXYZ''"

definition scheme_chars :: string where
  "scheme_chars = ascii_letters @ ''0123456789+-.''"

definition after_scheme :: "string \<Rightarrow> string" where
  "after_scheme url =
     (let head = takeWhile (\<lambda>c. c \<noteq> CHR '':'') url
      in if CHR '':'' \<in> set url \<and> head \<noteq> [] \<and> hd url \<in> set ascii_letters
            \<and> list_all (\<lambda>c. c \<in> set scheme_chars) head
         then drop (length head + 1) url else url)"

definition netloc :: "string \<Rightarrow> string" where
  "netloc url =
     (let rest = after_scheme url
      in if take 2 rest = ''//''
         then takeWhile (\<lambda>c. c \<noteq> CHR ''/'' \<and> c \<noteq> CHR ''?'' \<and> c \<noteq> CHR ''#'') (drop 2 rest)
         else [])"

text \<open>\<open>url.split('#')[0]\<close>, the URL without its fragment.\<close>

definition strip_fragment :: "string \<Rightarrow> string" where
  "strip_fragment url = takeWhile (\<lambda>c. c \<noteq> CHR ''#'') url"

text \<open>\<open>s.lower()\<close> on the characters of the model.\<close>

definition lower_char :: "char \<Rightarrow> char" where
  "lower_char c =
     (let n = (of_char c :: nat)
      in if (65 \<le> n \<and> n \<le> 90) \<or> (192 \<le> n \<and> n \<le> 222 \<and> n \<noteq> 215) then char_of (n + 32) else c)"

definition lower :: "string \<Rightarrow> string" where
  "lower s = map lower_char s"

section \<open>The traversal engine: \<open>DocumentationCrawler\<close> of \<open>docu_crawler.py\<close>\<close>

text \<open>
  What the crawler calls outside the repository. \<open>fetch url seconds\<close> is
  \<open>session.get(url, timeout=seconds)\<close>, \<open>raise_for_status()\<close> and the parse of the
  body: the parsed document, or \<open>None\<close> when one of them raises. No URL is fetched
  twice in one run (it is in \<open>visited\<close> before it is fetched), so a function of the URL
  covers every run. \<open>urljoin base href\<close> is the library's \<open>urljoin\<close>, \<open>None\<close> when it
  raises \<open>ValueError\<close>. \<open>strftime url\<close> is the clock's reading,
  \<open>time.strftime('%Y-%m-%d %H:%M:%S')\<close>, when the document of \<open>url\<close> is built.
  The last three are what \<open>main\<close> of \<open>crawl.py\<close> calls around the crawl.
  \<open>urlparse_netloc url\<close> is \<open>urlparse(url).netloc\<close>, \<open>None\<close> when \<open>urlparse\<close> raises
  \<open>ValueError\<close>. \<open>write_file path docs\<close> says whether creating the directory of \<open>path\<close>,
  opening the file and \<open>json.dump\<close> of \<open>docs\<close> all return; \<open>print_result result\<close>
  says whether the \<open>print\<close> of the result returns. Each is false when the call raises.
\<close>

record world =
  fetch :: "string \<Rightarrow> int \<Rightarrow> node option"
  urljoin :: "string \<Rightarrow> string \<Rightarrow> string option"
  strftime :: "string \<Rightarrow> string"
  urlparse_netloc :: "string \<Rightarrow> string option"
  write_file :: "string \<Rightarrow> json \<Rightarrow> bool"
  print_result :: "json \<Rightarrow> bool"

text \<open>The two fields of the crawler that \<open>crawl_page\<close> changes.\<close>

record crawler =
  visited :: "string set"
  documents :: "CrawledDocument list"

definition SKIP_EXTENSIONS :: "string list" where
  "SKIP_EXTENSIONS = [''.pdf'', ''.zip'', ''.jpg'', ''.png'', ''.gif'', ''.css'', ''.js'']"

text \<open>
  \<open>is_valid_url\<close>, with \<open>self.base_domain = urlparse(config.base_url).netloc\<close>. Nothing in
  the repository calls it: \<open>crawl_page\<close> below follows a link without it.
\<close>

definition is_valid_url :: "config \<Rightarrow> crawler \<Rightarrow> string \<Rightarrow> bool" where
  "is_valid_url cfg st url =
     (if netloc url \<noteq> netloc (base_url cfg) then False
      else if list_ex (\<lambda>ext. endswith (lower url) ext) SKIP_EXTENSIONS then False
      else (if CHR ''#'' \<in> set url then strip_fragment url else url) \<notin> visited st)"

text \<open>\<open>soup.find('title')\<close> and \<open>title.get_text(strip=True) if title else url\<close>.\<close>

definition title_text_of :: "node \<Rightarrow> string \<Rightarrow> string" where
  "title_text_of soup url =
     (case find [''title''] soup of Some title \<Rightarrow> get_text_strip [] title | None \<Rightarrow> url)"

text \<open>\<open>soup.find_all('a', href=True)\<close>, each link as its \<open>link['href']\<close>.\<close>

fun href_of :: "node \<Rightarrow> string option" where
  "href_of (Tag n attrs cs) = map_of attrs ''href''"
| "href_of (NavigableString s) = None"
| "href_of (Special c s) = None"

definition hrefs :: "node \<Rightarrow> string list" where
  "hrefs soup = [href. link \<leftarrow> find_all [''a''] soup, Some href \<leftarrow> [href_of link]]"

text \<open>
  \<open>crawl_page(url, depth)\<close>, and \<open>follow_links\<close>, its loop \<open>for link in links\<close> with
  \<open>sub_string = url[:20]\<close>. The state goes in and comes out. The \<open>try\<close> block has two
  handlers that only log, so an exception ends the call with the state as it is at that
  point: \<open>url\<close> is in \<open>visited\<close>; the document is in \<open>documents\<close> if the exception came
  after \<open>append\<close> (a \<open>urljoin\<close> that raises ends the loop over the links), and not if it
  came before (\<open>fetch\<close> is \<open>None\<close>). The extractor runs first and takes the \<open>script\<close>,
  \<open>style\<close>, \<open>nav\<close>, \<open>footer\<close> and \<open>header\<close> elements out of \<open>soup\<close>; the code blocks and
  the links are read from what is left. \<open>time.sleep\<close> changes nothing of the state.
  \<open>crawl_page\<close> of the older \<open>web_crawler.py\<close> has the same statements in the same
  order; it differs in the timeout and the pause, which are fixed, and in the document,
  which it builds as a dictionary (\<open>legacy_document\<close> above).
\<close>

function crawl_page :: "config \<Rightarrow> world \<Rightarrow> string \<Rightarrow> int \<Rightarrow> crawler \<Rightarrow> crawler"
  and follow_links :: "config \<Rightarrow> world \<Rightarrow> string \<Rightarrow> int \<Rightarrow> string list \<Rightarrow> crawler \<Rightarrow> crawler"
where
  "crawl_page cfg w url depth st =
     (if depth > max_depth cfg \<or> int (card (visited st)) \<ge> max_pages cfg then st
      else if url \<in> visited st then st
      else
        (let st1 = st\<lparr>visited := insert url (visited st)\<rparr>
         in case fetch w url (timeout cfg) of
              None \<Rightarrow> st1
            | Some soup0 \<Rightarrow>
                (let title_text = title_text_of soup0 url;
                     (content, soup) = extract_text_content soup0 5000;
                     code_blocks = extract_code_blocks soup;
                     document =
                       \<lparr>doc_url = url, doc_title = title_text, doc_content = content,
                        doc_code_blocks = code_blocks, doc_depth = depth,
                        doc_crawled_at = strftime w url\<rparr>;
                     st2 = st1\<lparr>documents := documents st1 @ [document]\<rparr>
                 in follow_links cfg w (take 20 url) depth (hrefs soup) st2)))"
| "follow_links cfg w sub_string depth [] st = st"
| "follow_links cfg w sub_string depth (href # links) st =
     (if startswith href sub_string \<or> startswith href ''/'' then
        (case (if startswith href ''/'' then urljoin w (base_url cfg) href else Some href) of
           None \<Rightarrow> st
         | Some next_url \<Rightarrow>
             follow_links cfg w sub_string depth links (crawl_page cfg w next_url (depth + 1) st))
      else follow_links cfg w sub_string depth links st)"
  by pat_completeness auto
termination
  by (relation "measures
        [\<lambda>x. case x of
               Inl (cfg, w, url, depth, st) \<Rightarrow>
                 (if depth > max_depth cfg then 0 else 2 * nat (max_depth cfg - depth) + 2)
             | Inr (cfg, w, sub_string, depth, links, st) \<Rightarrow>
                 (if depth > max_depth cfg then 1 else 2 * nat (max_depth cfg - depth) + 1),
         \<lambda>x. case x of
               Inl (cfg, w, url, depth, st) \<Rightarrow> 0
             | Inr (cfg, w, sub_string, depth, links, st) \<Rightarrow> length links]")
     auto

text \<open>\<open>crawl()\<close>, on the crawler as \<open>__init__\<close> leaves it.\<close>

definition crawl :: "config \<Rightarrow> world \<Rightarrow> CrawledDocument list" where
  "crawl cfg w = documents (crawl_page cfg w (base_url cfg) 0 \<lparr>visited = {}, documents = []\<rparr>)"

text \<open>
  \<open>main\<close> of \<open>crawl.py\<close> after the arguments are parsed: the exit code, what is in
  the output file and what is printed on standard output. The \<open>try\<close> block has two
  handlers, for \<open>ValueError\<close> and for every other \<open>Exception\<close>, and both end the run
  with exit code 1: so does a \<open>ValueError\<close> of \<open>CrawlerConfig\<close>, one of \<open>urlparse\<close> in
  the constructor of the crawler (which sets \<open>base_domain\<close>), and a failure to write the
  file or to print. The crawl itself raises nothing: \<open>crawl_page\<close> catches what its
  page raises.
\<close>

definition main :: "world \<Rightarrow> string \<Rightarrow> string \<Rightarrow> int \<Rightarrow> int \<Rightarrow> int \<Rightarrow> real
    \<Rightarrow> int \<times> json option \<times> json option" where
  "main w args_url args_output args_max_depth args_max_pages args_timeout args_rate_limit =
     (case CrawlerConfig args_url args_max_depth args_max_pages args_timeout args_rate_limit
             default_user_agent of
        Inl e \<Rightarrow> (1, None, None)
      | Inr cfg \<Rightarrow>
          (case urlparse_netloc w (base_url cfg) of
             None \<Rightarrow> (1, None, None)
           | Some base_domain \<Rightarrow>
               (let docs = crawl cfg w;
                    documents_dict = JArray (map to_dict docs)
                in if \<not> write_file w args_output documents_dict then (1, None, None)
                   else
                     (let result =
                            JObject [(''docs'', documents_dict), (''status'', JString ''success'')]
                      in if \<not> print_result w result then (1, Some documents_dict, None)
                         else (0, Some documents_dict, Some result)))))"

subsection \<open>The depth of the call stack\<close>

text \<open>
  \<open>crawl_page\<close> once more, with a bound on the calls of \<open>crawl_page\<close> that are active at
  one time: \<open>crawl_page_fuel k\<close> may stack \<open>k\<close> calls, itself included, and is \<open>None\<close>
  when the walk needs more. The rest is \<open>crawl_page\<close> word for word.
\<close>

fun crawl_page_fuel :: "nat \<Rightarrow> config \<Rightarrow> world \<Rightarrow> string \<Rightarrow> int \<Rightarrow> crawler \<Rightarrow> crawler option"
  and follow_links_fuel :: "nat \<Rightarrow> config \<Rightarrow> world \<Rightarrow> string \<Rightarrow> int \<Rightarrow> string list \<Rightarrow> crawler \<Rightarrow> crawler option"
where
  "crawl_page_fuel 0 cfg w url depth st = None"
| "crawl_page_fuel (Suc k) cfg w url depth st =
     (if depth > max_depth cfg \<or> int (card (visited st)) \<ge> max_pages cfg then Some st
      else if url \<in> visited st then Some st
      else
        (let st1 = st\<lparr>visited := insert url (visited st)\<rparr>
         in case fetch w url (timeout cfg) of
              None \<Rightarrow> Some st1
            | Some soup0 \<Rightarrow>
                (let title_text = title_text_of soup0 url;
                     (content, soup) = extract_text_content soup0 5000;
                     code_blocks = extract_code_blocks soup;
                     document =
                       \<lparr>doc_url = url, doc_title = title_text, doc_content = content,
                        doc_code_blocks = code_blocks, doc_depth = depth,
                        doc_crawled_at = strftime w url\<rparr>;
                     st2 = st1\<lparr>documents := documents st1 @ [document]\<rparr>
                 in follow_links_fuel k cfg w (take 20 url) depth (hrefs soup) st2)))"
| "follow_links_fuel k cfg w sub_string depth [] st = Some st"
| "follow_links_fuel k cfg w sub_string depth (href # links) st =
     (if startswith href sub_string \<or> startswith href ''/'' then
        (case (if startswith href ''/'' then urljoin w (base_url cfg) href else Some href) of
           None \<Rightarrow> Some st
         | Some next_url \<Rightarrow>
             (case crawl_page_fuel k cfg w next_url (depth + 1) st of
                None \<Rightarrow> None
              | Some st' \<Rightarrow> follow_links_fuel k cfg w sub_string depth links st'))
      else follow_links_fuel k cfg w sub_string depth links st)"

text \<open>\<open>crawl()\<close> with the same bound.\<close>

definition crawl_fuel :: "nat \<Rightarrow> config \<Rightarrow> world \<Rightarrow> CrawledDocument list option" where
  "crawl_fuel k cfg w =
     map_option documents
       (crawl_page_fuel k cfg w (base_url cfg) 0 \<lparr>visited = {}, documents = []\<rparr>)"

subsection \<open>What every state of a crawl satisfies\<close>

text \<open>
  The page budget and the depth limit; and what the documents are: one for each of
  some of the visited URLs, no URL twice, each fetched without an error.
\<close>

definition within_budget :: "config \<Rightarrow> crawler \<Rightarrow> bool" where
  "within_budget cfg st \<longleftrightarrow>
     finite (visited st) \<and> length (documents st) \<le> card (visited st) \<and>
     int (card (visited st)) \<le> max_pages cfg \<and>
     list_all (\<lambda>doc. doc_depth doc \<le> max_depth cfg) (documents st)"

definition documents_fetched :: "config \<Rightarrow> world \<Rightarrow> crawler \<Rightarrow> bool" where
  "documents_fetched cfg w st \<longleftrightarrow>
     set (map doc_url (documents st)) \<subseteq> visited st \<and> distinct (map doc_url (documents st)) \<and>
     list_all (\<lambda>doc. fetch w (doc_url doc) (timeout cfg) \<noteq> None) (documents st)"

subsection \<open>The document of the older script\<close>

text \<open>
  What \<open>crawl_page\<close> of \<open>web_crawler.py\<close> appends to \<open>documents\<close> for a page that it
  has fetched at \<open>url\<close> and \<open>depth\<close>: the title, the content and the code blocks by
  the methods of that script, put into \<open>legacy_document\<close>. Its \<open>main\<close> writes the
  documents out as they are.
\<close>

definition legacy_crawled_document :: "world \<Rightarrow> string \<Rightarrow> int \<Rightarrow> node \<Rightarrow> json" where
  "legacy_crawled_document w url depth soup0 =
     (let title_text = title_text_of soup0 url;
          (content, soup) = legacy_extract_text_content soup0;
          code_blocks = legacy_extract_code_blocks soup
      in legacy_document url title_text content code_blocks depth (strftime w url))"

section \<open>Three small sites\<close>

text \<open>
  \<open>urljoin(base, href)\<close> for the links of the sites below: an \<open>href\<close> that starts with one
  \<open>/\<close> replaces the path of \<open>base\<close>. On these sites \<open>urlparse\<close> raises nothing, and
  the output is written and printed.
\<close>

definition urljoin_path :: "string \<Rightarrow> string \<Rightarrow> string option" where
  "urljoin_path base href =
     Some (take (length base - length (after_scheme base)) base @ ''//'' @ netloc base @ href)"

definition page :: "node list \<Rightarrow> node" where
  "page body = Tag ''[document]'' [] [Tag ''html'' [] [Tag ''body'' [] body]]"

definition anchor :: "string \<Rightarrow> node" where
  "anchor href = Tag ''a'' [(''href'', href)] [NavigableString ''link'']"

text \<open>
  The first site: its start page, \<open>https://docs.python.org/3/\<close>, has a link to a page
  of another host whose name begins with the same characters.
\<close>

definition python_cfg :: config where
  "python_cfg =
     \<lparr>base_url = ''https://docs.python.org/3/'', max_depth = 3, max_pages = 200, timeout = 10,
      rate_limit_delay = 1 / 2, user_agent = default_user_agent\<rparr>"

definition python_world :: world where
  "python_world =
     \<lparr>fetch = (\<lambda>url seconds.
         if url = ''https://docs.python.org/3/'' then
           Some (page [anchor ''https://docs.python.evil.example/''])
         else if url = ''https://docs.python.evil.example/'' then Some (page [])
         else None),
      urljoin = urljoin_path,
      strftime = (\<lambda>url. ''2024-01-01 00:00:00''),
      urlparse_netloc = (\<lambda>url. Some (netloc url)),
      write_file = (\<lambda>path docs. True),
      print_result = (\<lambda>result. True)\<rparr>"

text \<open>
  The second site: its start page, \<open>https://ex.com/docs/\<close>, has a link to a section of
  itself; the server answers both URLs with the same page.
\<close>

definition anchored_cfg :: config where
  "anchored_cfg =
     \<lparr>base_url = ''https://ex.com/docs/'', max_depth = 3, max_pages = 200, timeout = 10,
      rate_limit_delay = 1 / 2, user_agent = default_user_agent\<rparr>"

definition anchored_world :: world where
  "anchored_world =
     \<lparr>fetch = (\<lambda>url seconds.
         if url = ''https://ex.com/docs/'' \<or> url = ''https://ex.com/docs/#intro'' then
           Some (page [anchor ''https://ex.com/docs/#intro''])
         else None),
      urljoin = urljoin_path,
      strftime = (\<lambda>url. ''2024-01-01 00:00:00''),
      urlparse_netloc = (\<lambda>url. Some (netloc url)),
      write_file = (\<lambda>path docs. True),
      print_result = (\<lambda>result. True)\<rparr>"

text \<open>
  The third site: the start page links to a page whose fetch fails, and then to a
  second page by its path.
\<close>

definition broken_cfg :: config where
  "broken_cfg =
     \<lparr>base_url = ''https://ex.com/docs/'', max_depth = 1, max_pages = 3, timeout = 10,
      rate_limit_delay = 1 / 2, user_agent = default_user_agent\<rparr>"

definition broken_world :: world where
  "broken_world =
     \<lparr>fetch = (\<lambda>url seconds.
         if url = ''https://ex.com/docs/'' then
           Some (page [anchor ''https://ex.com/docs/broken'', anchor ''/docs/page2''])
         else if url = ''https://ex.com/docs/page2'' then Some (page [])
         else None),
      urljoin = urljoin_path,
      strftime = (\<lambda>url. ''2024-01-01 00:00:00''),
      urlparse_netloc = (\<lambda>url. Some (netloc url)),
      write_file = (\<lambda>path docs. True),
      print_result = (\<lambda>result. True)\<rparr>"

text \<open>
  A page with a code element inside a \<open>pre\<close> element and one outside; a \<open>pre\<close>
  element with highlighted code; and a page whose second heading is an \<open>h5\<close>.
\<close>

definition code_page :: node where
  "code_page =
     page [Tag ''pre'' [] [Tag ''code'' [] [NavigableString ''print(1)'']],
           Tag ''code'' [] [NavigableString ''x'']]"

definition highlighted_page :: node where
  "highlighted_page =
     page [Tag ''pre'' []
             [Tag ''span'' [] [NavigableString ''import''], NavigableString '' '',
              Tag ''span'' [] [NavigableString ''os'']]]"

definition headings_page :: node where
  "headings_page =
     page [Tag ''h2'' [] [NavigableString ''Intro''],
           Tag ''p'' [] [NavigableString ''first''],
           Tag ''h5'' [] [NavigableString ''Note''],
           Tag ''p'' [] [NavigableString ''second''],
           Tag ''h3'' [] [NavigableString ''Next'']]"

section \<open>The chunker keeps the words\<close>

lemma split_from_nospace:
  "list_all (\<lambda>c. \<not> isspace c) w \<Longrightarrow> split_from acc (w @ rest) = split_from (acc @ w) rest"
  by (induction w arbitrary: acc) auto

lemma split_from_trailing:
  "list_all isspace ws \<Longrightarrow> split_from acc (a @ ws) = split_from acc a"
proof (induction a arbitrary: acc)
  case Nil
  then show ?case by (induction ws arbitrary: acc) auto
next
  case (Cons x a)
  then show ?case by auto
qed

lemma split_from_leading:
  "list_all isspace ws \<Longrightarrow> split_from [] (ws @ b) = split_from [] b"
  by (induction ws) auto

lemma split_from_sep:
  "isspace c \<Longrightarrow> split_from acc (a @ c # b) = split_from acc a @ split_from [] b"
  by (induction a arbitrary: acc) auto

lemma str_split_sep:
  assumes "sep \<noteq> []" "list_all isspace sep"
  shows "str_split (a @ sep @ b) = str_split a @ str_split b"
proof -
  obtain c sep' where s: "sep = c # sep'" using assms(1) by (cases sep) auto
  with assms(2) have c: "isspace c" and r: "list_all isspace sep'" by auto
  show ?thesis
    unfolding str_split_def s using split_from_sep [OF c, of "[]" a "sep' @ b"]
      split_from_leading [OF r, of b] by simp
qed

lemma str_split_word: "word_ok w \<Longrightarrow> str_split w = [w]"
  unfolding str_split_def word_ok_def
  using split_from_nospace [of w "[]" "[]"] by simp

lemma split_from_words:
  "list_all (\<lambda>c. \<not> isspace c) acc \<Longrightarrow> list_all word_ok (split_from acc s)"
  by (induction acc s rule: split_from.induct) (auto simp: word_ok_def)

lemma str_split_words: "list_all word_ok (str_split s)"
  unfolding str_split_def by (rule split_from_words) simp

lemma str_split_strip: "str_split (str_strip s) = str_split s"
proof -
  let ?t = "dropWhile isspace s"
  have a: "str_split ?t = str_split s"
    unfolding str_split_def
    using split_from_leading [of "takeWhile isspace s" ?t]
    by (simp add: list_all_iff) (metis set_takeWhileD)
  have "?t = rev (dropWhile isspace (rev ?t)) @ rev (takeWhile isspace (rev ?t))"
    by (metis rev_append rev_rev_ident takeWhile_dropWhile_id)
  moreover have "list_all isspace (rev (takeWhile isspace (rev ?t)))"
    by (simp add: list_all_iff) (metis set_takeWhileD)
  ultimately have "str_split ?t = str_split (rev (dropWhile isspace (rev ?t)))"
    unfolding str_split_def using split_from_trailing by metis
  then show ?thesis using a by (simp add: str_strip_def)
qed

lemma str_split_join:
  "sep \<noteq> [] \<Longrightarrow> list_all isspace sep \<Longrightarrow>
   str_split (str_join sep cs) = concat (map str_split cs)"
proof (induction sep cs rule: str_join.induct)
  case (1 sep)
  show ?case by (simp add: str_split_def)
next
  case (2 sep x)
  show ?case by simp
next
  case (3 sep x y ys)
  then show ?case by (simp add: str_split_sep)
qed

lemma pack_words_inv:
  "list_all word_ok ws \<Longrightarrow> pack_words n chunks cur ws = (chunks', cur') \<Longrightarrow>
   concat (map str_split chunks') @ str_split cur'
     = concat (map str_split chunks) @ str_split cur @ ws"
proof (induction ws arbitrary: chunks cur)
  case Nil
  then show ?case by simp
next
  case (Cons w ws)
  have w: "str_split w = [w]" using Cons.prems(1) by (simp add: str_split_word)
  have sp: "str_split (cur @ CHR '' '' # w) = str_split cur @ [w]"
    using str_split_sep [of "'' ''" cur w] w by (simp add: isspace_def)
  have e: "str_split [] = []" by (simp add: str_split_def)
  from Cons.prems show ?case
    by (auto simp: w sp e str_split_strip split: if_splits dest!: Cons.IH [rotated])
qed

text \<open>
  The words of the result are the words of the text, in the same order: whatever
  \<open>max_length\<close> is, also when it is zero or negative.
\<close>

lemma split_text_on_words_words:
  "str_split (split_text_on_words text n) = str_split text"
proof (cases "int (length text) \<le> n")
  case True
  then show ?thesis by (simp add: split_text_on_words_def)
next
  case False
  obtain chunks cur where p: "pack_words n [] [] (str_split text) = (chunks, cur)"
    by (cases "pack_words n [] [] (str_split text)") auto
  have e: "str_split [] = []" by (simp add: str_split_def)
  from pack_words_inv [OF str_split_words p]
  have "concat (map str_split chunks) @ str_split cur = str_split text" by (simp add: e)
  then show ?thesis using False p
    by (auto simp: split_text_on_words_def str_split_join isspace_def str_split_strip e)
qed


text \<open>
  C4. For every text and every \<open>max_length\<close>, the multiset of the whitespace-delimited
  words of \<open>split_text_on_words text max_length\<close> is the multiset of the
  whitespace-delimited words of \<open>text\<close>: splitting the result on whitespace takes the
  joining line breaks away, and no word is dropped, repeated or changed.
\<close>

theorem chunk_keeps_word_multiset:
  "mset (str_split (split_text_on_words text max_length)) = mset (str_split text)"
  by (simp add: split_text_on_words_words)

text \<open>
  C5. The chunker is idempotent, for every text and every \<open>max_length\<close>: a second pass
  either finds the result short enough and returns it, or splits it into the same
  words and packs them into the same chunks.
\<close>

theorem chunk_idempotent:
  "split_text_on_words (split_text_on_words text max_length) max_length
     = split_text_on_words text max_length"
proof (cases "int (length (split_text_on_words text max_length)) \<le> max_length")
  case True
  then show ?thesis by (subst split_text_on_words_def) simp
next
  case False
  then have big: "\<not> int (length text) \<le> max_length"
    by (auto simp: split_text_on_words_def split: if_splits)
  have "split_text_on_words (split_text_on_words text max_length) max_length
      = (case pack_words max_length [] [] (str_split (split_text_on_words text max_length)) of
           (chunks, cur) \<Rightarrow>
             str_join [CHR 0x0A, CHR 0x0A] (if cur \<noteq> [] then chunks @ [str_strip cur] else chunks))"
    using False by (subst split_text_on_words_def) simp
  also have "\<dots> = split_text_on_words text max_length"
    using big by (simp add: split_text_on_words_words) (simp add: split_text_on_words_def)
  finally show ?thesis .
qed

section \<open>The traversal engine: evaluation and invariants\<close>

text \<open>
  \<open>crawl_page.simps\<close> is one equation with \<open>crawl_page\<close> on both sides: it is used
  where it is named.
\<close>

declare crawl_page.simps [simp del]

text \<open>The definitions that evaluating a crawl of a given site unfolds.\<close>


lemmas string_eval = isspace_def str_strip_def str_split_def startswith_def endswith_def
  is_linebreak_def splitlines_def split_text_on_words_def
lemmas tree_eval = find_all_def find_def find_div_content_def get_text_def get_text_strip_def
  heading_section_def extract_text_content_def extract_code_blocks_def title_text_of_def hrefs_def
  find_all_with_parents_def legacy_extract_code_blocks_def legacy_extract_text_content_def legacy_heading_section_def
  legacy_crawled_document_def page_def anchor_def
lemmas url_eval = ascii_letters_def scheme_chars_def after_scheme_def netloc_def strip_fragment_def
  urljoin_path_def

text \<open>The results of crawling the three sites.\<close>

lemma python_crawl:
  "crawl python_cfg python_world =
    [\<lparr>doc_url = ''https://docs.python.org/3/'',
     doc_title = ''https://docs.python.org/3/'', doc_content = [CHR 0x0A, CHR 0x0A] @ ''link'',
     doc_code_blocks = [], doc_depth = 0,
     doc_crawled_at = ''2024-01-01 00:00:00''\<rparr>,
  \<lparr>doc_url = ''https://docs.python.evil.example/'',
     doc_title = ''https://docs.python.evil.example/'',
     doc_content = [CHR 0x0A, CHR 0x0A], doc_code_blocks = [], doc_depth = 1,
     doc_crawled_at = ''2024-01-01 00:00:00''\<rparr>]"
  by (simp add: crawl_def crawl_page.simps python_cfg_def python_world_def string_eval tree_eval url_eval Let_def)

lemma anchored_crawl:
  "crawl anchored_cfg anchored_world =
    [\<lparr>doc_url = ''https://ex.com/docs/'', doc_title = ''https://ex.com/docs/'',
     doc_content = [CHR 0x0A, CHR 0x0A] @ ''link'', doc_code_blocks = [], doc_depth = 0,
     doc_crawled_at = ''2024-01-01 00:00:00''\<rparr>,
  \<lparr>doc_url = ''https://ex.com/docs/#intro'',
     doc_title = ''https://ex.com/docs/#intro'', doc_content = [CHR 0x0A, CHR 0x0A] @ ''link'',
     doc_code_blocks = [], doc_depth = 1,
     doc_crawled_at = ''2024-01-01 00:00:00''\<rparr>]"
  by (simp add: crawl_def crawl_page.simps anchored_cfg_def anchored_world_def string_eval tree_eval url_eval Let_def)

lemma broken_crawl:
  "crawl broken_cfg broken_world =
  [\<lparr>doc_url = ''https://ex.com/docs/'', doc_title = ''https://ex.com/docs/'',
     doc_content = [CHR 0x0A, CHR 0x0A] @ ''link'' @ [CHR 0x0A] @ ''link'', doc_code_blocks = [], doc_depth = 0,
     doc_crawled_at = ''2024-01-01 00:00:00''\<rparr>,
  \<lparr>doc_url = ''https://ex.com/docs/page2'',
     doc_title = ''https://ex.com/docs/page2'', doc_content = [CHR 0x0A, CHR 0x0A],
     doc_code_blocks = [], doc_depth = 1,
     doc_crawled_at = ''2024-01-01 00:00:00''\<rparr>]"
  by (simp add: crawl_def crawl_page.simps broken_cfg_def broken_world_def string_eval tree_eval url_eval Let_def)


text \<open>
  A property of the state is kept by \<open>crawl_page\<close> and by the loop over the links when
  the two changes of the state keep it: marking \<open>url\<close> visited when its fetch fails,
  and marking it visited together with appending its document. Both happen only within
  the depth limit and the page budget, to a URL not visited before.
\<close>

lemma crawl_page_invariant:
  assumes mark: "\<And>st url depth. I st \<Longrightarrow> depth \<le> max_depth cfg \<Longrightarrow>
        int (card (visited st)) < max_pages cfg \<Longrightarrow> url \<notin> visited st \<Longrightarrow>
        fetch w url (timeout cfg) = None \<Longrightarrow> I (st\<lparr>visited := insert url (visited st)\<rparr>)"
    and append: "\<And>st url depth soup0 doc. I st \<Longrightarrow> depth \<le> max_depth cfg \<Longrightarrow>
        int (card (visited st)) < max_pages cfg \<Longrightarrow> url \<notin> visited st \<Longrightarrow>
        fetch w url (timeout cfg) = Some soup0 \<Longrightarrow> doc_url doc = url \<Longrightarrow> doc_depth doc = depth \<Longrightarrow>
        I (st\<lparr>visited := insert url (visited st), documents := documents st @ [doc]\<rparr>)"
  shows "I st \<Longrightarrow> I (crawl_page cfg w url depth st)"
    and "I st \<Longrightarrow> I (follow_links cfg w sub_string depth links st)"
  using assms
proof (induction cfg w url depth st and cfg w sub_string depth links st
       rule: crawl_page_follow_links.induct)
  case (1 cfg w url depth st)
  note I = "1.prems"(1) and mark = "1.prems"(2) and append = "1.prems"(3)
  show ?case
  proof (cases "depth > max_depth cfg \<or> int (card (visited st)) \<ge> max_pages cfg \<or> url \<in> visited st")
    case True
    then show ?thesis using I by (auto simp: crawl_page.simps)
  next
    case False
    let ?st1 = "st\<lparr>visited := insert url (visited st)\<rparr>"
    show ?thesis
    proof (cases "fetch w url (timeout cfg)")
      case None
      then have "I ?st1" using False I by (intro mark [where depth = depth]) auto
      then show ?thesis using False None by (simp add: crawl_page.simps)
    next
      case (Some soup0)
      obtain content soup where e: "extract_text_content soup0 5000 = (content, soup)"
        by (cases "extract_text_content soup0 5000") auto
      let ?doc = "\<lparr>doc_url = url, doc_title = title_text_of soup0 url, doc_content = content,
                    doc_code_blocks = extract_code_blocks soup, doc_depth = depth,
                    doc_crawled_at = strftime w url\<rparr>"
      let ?st2 = "?st1\<lparr>documents := documents ?st1 @ [?doc]\<rparr>"
      have "I ?st2"
        using False Some I append [of st depth url soup0 ?doc] by auto
      then have "I (follow_links cfg w (take 20 url) depth (hrefs soup) ?st2)"
        using False Some e mark append
        by (intro "1.IH" [OF _ _ refl Some refl e [symmetric] refl refl refl refl]) auto
      then show ?thesis using False Some e by (simp add: crawl_page.simps)
    qed
  qed
next
  case (2 cfg w sub_string depth st)
  then show ?case by simp
next
  case (3 cfg w sub_string depth href links st)
  note I = "3.prems"(1) and mark = "3.prems"(2) and append = "3.prems"(3)
  show ?case
  proof (cases "startswith href sub_string \<or> startswith href ''/''")
    case False
    then show ?thesis using 3 by simp
  next
    case True
    show ?thesis
    proof (cases "if startswith href ''/'' then urljoin w (base_url cfg) href else Some href")
      case None
      then show ?thesis using True I by simp
    next
      case (Some next_url)
      have step: "I (crawl_page cfg w next_url (depth + 1) st)"
        by (rule "3.IH"(1) [OF True Some]) (fact I, (rule mark; assumption), (rule append; assumption))
      have "I (follow_links cfg w sub_string depth links (crawl_page cfg w next_url (depth + 1) st))"
        by (rule "3.IH"(2) [OF True Some]) (fact step, (rule mark; assumption), (rule append; assumption))
      then show ?thesis using True Some by simp
    qed
  qed
qed

text \<open>The invariants of the definitions above, and that documents are only ever appended.\<close>

lemma crawl_page_within_budget:
  "within_budget cfg st \<Longrightarrow> within_budget cfg (crawl_page cfg w url depth st)"
  by (rule crawl_page_invariant(1) [where I = "within_budget cfg"])
     (auto simp: within_budget_def)

lemma crawl_page_documents_fetched:
  "documents_fetched cfg w st \<Longrightarrow> documents_fetched cfg w (crawl_page cfg w url depth st)"
  by (rule crawl_page_invariant(1) [where I = "documents_fetched cfg w"])
     (auto simp: documents_fetched_def)

lemma follow_links_extends:
  "\<exists>ds. documents (follow_links cfg w sub_string depth links st) = documents st @ ds"
  by (rule crawl_page_invariant(2) [where I = "\<lambda>s. \<exists>ds. documents s = documents st @ ds"]) auto

lemma crawl_page_extends:
  "\<exists>ds. documents (crawl_page cfg w url depth st) = documents st @ ds"
  by (rule crawl_page_invariant(1) [where I = "\<lambda>s. \<exists>ds. documents s = documents st @ ds"]) auto

lemma crawl_page_visited_mono:
  "visited st \<subseteq> visited (crawl_page cfg w url depth st)"
  by (rule crawl_page_invariant(1) [where I = "\<lambda>s. visited st \<subseteq> visited s"]) auto

text \<open>
  C3. For every crawl with \<open>max_depth \<ge> 0\<close> and \<open>max_pages \<ge> 1\<close>, whatever the
  fetches return, the result has at most \<open>max_pages\<close> documents, and the depth recorded
  in each of them is at most \<open>max_depth\<close>.
\<close>

theorem crawl_within_limits:
  assumes "0 \<le> max_depth cfg" and "1 \<le> max_pages cfg"
  shows "int (length (crawl cfg w)) \<le> max_pages cfg \<and>
         (\<forall>doc \<in> set (crawl cfg w). doc_depth doc \<le> max_depth cfg)"
proof -
  have "within_budget cfg \<lparr>visited = {}, documents = []\<rparr>"
    using assms by (simp add: within_budget_def)
  then have "within_budget cfg (crawl_page cfg w (base_url cfg) 0 \<lparr>visited = {}, documents = []\<rparr>)"
    by (rule crawl_page_within_budget)
  then show ?thesis
    by (auto simp: within_budget_def crawl_def list_all_iff)
qed

theorem crawl_within_limits_witness:
  "0 \<le> max_depth broken_cfg \<and> 1 \<le> max_pages broken_cfg \<and>
   length (crawl broken_cfg broken_world) = 2 \<and>
   int (length (crawl broken_cfg broken_world)) \<le> max_pages broken_cfg \<and>
   map doc_depth (crawl broken_cfg broken_world) = [0, 1] \<and> max_depth broken_cfg = 1"
proof -
  have h1: "0 \<le> max_depth broken_cfg" and h2: "1 \<le> max_pages broken_cfg"
    by (simp_all add: broken_cfg_def)
  show ?thesis
    using crawl_within_limits [OF h1 h2, of broken_world] h1 h2
    by (simp add: broken_crawl) (simp add: broken_cfg_def)
qed

text \<open>
  No URL is the source of two documents, when URLs are compared as they are written.
\<close>

lemma crawl_urls_distinct: "distinct (map doc_url (crawl cfg w))"
proof -
  have "documents_fetched cfg w
          (crawl_page cfg w (base_url cfg) 0 \<lparr>visited = {}, documents = []\<rparr>)"
    by (rule crawl_page_documents_fetched) (simp add: documents_fetched_def)
  then show ?thesis by (simp add: documents_fetched_def crawl_def)
qed

section \<open>Which pages a crawl records\<close>

text \<open>
  C1. The claim is that the host of every document's URL is the host of the seed URL.
  On the first site the crawl from \<open>https://docs.python.org/3/\<close> records a document for
  \<open>https://docs.python.evil.example/\<close>: the link starts with the first 20 characters of
  the page it stands on, \<open>https://docs.python.\<close>, which is all that \<open>crawl_page\<close> asks
  of it. \<open>is_valid_url\<close>, which compares the hosts, rejects that URL; it is never called.
\<close>

theorem foreign_host_document:
  "map doc_url (crawl python_cfg python_world)
     = [''https://docs.python.org/3/'', ''https://docs.python.evil.example/'']
   \<and> netloc (base_url python_cfg) = ''docs.python.org''
   \<and> netloc ''https://docs.python.evil.example/'' = ''docs.python.evil.example''
   \<and> \<not> is_valid_url python_cfg \<lparr>visited = {''https://docs.python.org/3/''}, documents = []\<rparr>
         ''https://docs.python.evil.example/''"
  by (simp add: python_crawl) (simp add: python_cfg_def is_valid_url_def url_eval)

text \<open>
  C2. The claim is that no two documents have URLs that are equal once the fragment is
  taken off. On the second site the crawl from \<open>https://ex.com/docs/\<close> records that page
  and then \<open>https://ex.com/docs/#intro\<close>, the same page: \<open>crawl_page\<close> looks the URL up in
  \<open>visited\<close> as it is written. \<open>is_valid_url\<close>, which takes the fragment off before it
  looks, rejects the second URL; it is never called.
\<close>

theorem fragment_duplicate_documents:
  "map doc_url (crawl anchored_cfg anchored_world)
     = [''https://ex.com/docs/'', ''https://ex.com/docs/#intro'']
   \<and> map (strip_fragment \<circ> doc_url) (crawl anchored_cfg anchored_world)
     = [''https://ex.com/docs/'', ''https://ex.com/docs/'']
   \<and> \<not> is_valid_url anchored_cfg \<lparr>visited = {''https://ex.com/docs/''}, documents = []\<rparr>
         ''https://ex.com/docs/#intro''"
  by (simp add: anchored_crawl) (simp add: anchored_cfg_def is_valid_url_def url_eval SKIP_EXTENSIONS_def
        lower_def lower_char_def string_eval)

section \<open>A fetch that fails\<close>

text \<open>
  The exit code of \<open>main\<close> is 0 exactly when the configuration is valid, \<open>urlparse\<close>
  accepts the seed URL, and the documents are written and the result is printed: what
  the fetches return bears on it only through the documents that are handed to the
  file and to \<open>print\<close>.
\<close>

lemma main_exit_code:
  "fst (main w args_url args_output args_max_depth args_max_pages args_timeout args_rate_limit) = 0
   \<longleftrightarrow> (\<exists>cfg. CrawlerConfig args_url args_max_depth args_max_pages args_timeout
                  args_rate_limit default_user_agent = Inr cfg
             \<and> urlparse_netloc w args_url \<noteq> None
             \<and> write_file w args_output (JArray (map to_dict (crawl cfg w)))
             \<and> print_result w
                  (JObject [(''docs'', JArray (map to_dict (crawl cfg w))),
                            (''status'', JString ''success'')]))"
proof (cases "CrawlerConfig args_url args_max_depth args_max_pages args_timeout
                args_rate_limit default_user_agent")
  case (Inl e)
  then show ?thesis by (simp add: main_def)
next
  case (Inr cfg)
  then have "base_url cfg = args_url" by (auto simp: CrawlerConfig_def split: if_splits)
  then show ?thesis using Inr by (auto simp: main_def Let_def split: option.splits)
qed

text \<open>
  C8. Take a run whose configuration is valid, whose seed URL \<open>urlparse\<close> accepts, whose
  seed page is fetched and processed, and whose output is written and printed. Then,
  whichever other fetches fail: the run ends with exit code 0, and writes and prints
  the documents, with the status \<open>success\<close>; the seed's document is the first of them;
  a URL whose fetch fails is the source of no document; the call of \<open>crawl_page\<close> for
  such a URL does nothing (when the depth limit, the page budget or \<open>visited\<close> stops
  it) or only marks the URL visited; and the loop over the links of the page that links
  to it goes on with the links that follow, from a state with the same documents.
\<close>

theorem transport_error_confined:
  assumes cfg: "CrawlerConfig args_url args_max_depth args_max_pages args_timeout args_rate_limit
                  default_user_agent = Inr cfg"
      and init: "urlparse_netloc w args_url = Some base_domain"
      and seed: "fetch w args_url args_timeout = Some soup0"
      and written: "write_file w args_output (JArray (map to_dict (crawl cfg w)))"
      and printed: "print_result w
                      (JObject [(''docs'', JArray (map to_dict (crawl cfg w))),
                                (''status'', JString ''success'')])"
  shows "main w args_url args_output args_max_depth args_max_pages args_timeout args_rate_limit
           = (0, Some (JArray (map to_dict (crawl cfg w))),
                 Some (JObject [(''docs'', JArray (map to_dict (crawl cfg w))),
                                (''status'', JString ''success'')]))
       \<and> crawl cfg w \<noteq> []
       \<and> hd (crawl cfg w) =
           \<lparr>doc_url = args_url, doc_title = title_text_of soup0 args_url,
            doc_content = fst (extract_text_content soup0 5000),
            doc_code_blocks = extract_code_blocks (snd (extract_text_content soup0 5000)),
            doc_depth = 0, doc_crawled_at = strftime w args_url\<rparr>
       \<and> (\<forall>url. fetch w url args_timeout = None \<longrightarrow> url \<notin> set (map doc_url (crawl cfg w)))
       \<and> (\<forall>url depth st. fetch w url args_timeout = None \<longrightarrow>
             crawl_page cfg w url depth st = st \<or>
             crawl_page cfg w url depth st = st\<lparr>visited := insert url (visited st)\<rparr>)
       \<and> (\<forall>sub_string depth href links st next_url.
             (startswith href sub_string \<or> startswith href ''/'') \<longrightarrow>
             (if startswith href ''/'' then urljoin w args_url href else Some href) = Some next_url \<longrightarrow>
             fetch w next_url args_timeout = None \<longrightarrow>
               follow_links cfg w sub_string depth (href # links) st
                 = follow_links cfg w sub_string depth links (crawl_page cfg w next_url (depth + 1) st)
               \<and> documents (crawl_page cfg w next_url (depth + 1) st) = documents st)"
proof -
  from cfg have f: "base_url cfg = args_url" "timeout cfg = args_timeout"
      "0 \<le> max_depth cfg" "1 \<le> max_pages cfg"
    by (auto simp: CrawlerConfig_def split: if_splits)
  let ?init = "\<lparr>visited = {}, documents = []\<rparr>"
  let ?doc = "\<lparr>doc_url = args_url, doc_title = title_text_of soup0 args_url,
            doc_content = fst (extract_text_content soup0 5000),
            doc_code_blocks = extract_code_blocks (snd (extract_text_content soup0 5000)),
            doc_depth = 0, doc_crawled_at = strftime w args_url\<rparr>"
  have m: "main w args_url args_output args_max_depth args_max_pages args_timeout args_rate_limit
           = (0, Some (JArray (map to_dict (crawl cfg w))),
                 Some (JObject [(''docs'', JArray (map to_dict (crawl cfg w))),
                                (''status'', JString ''success'')]))"
    using cfg init written printed f by (simp add: main_def Let_def)
  have "crawl_page cfg w args_url 0 ?init
      = follow_links cfg w (take 20 args_url) 0 (hrefs (snd (extract_text_content soup0 5000)))
          \<lparr>visited = {args_url}, documents = [?doc]\<rparr>"
    using f seed by (simp add: crawl_page.simps split: prod.splits)
  moreover obtain ds where "documents (follow_links cfg w (take 20 args_url) 0
        (hrefs (snd (extract_text_content soup0 5000))) \<lparr>visited = {args_url}, documents = [?doc]\<rparr>)
      = [?doc] @ ds"
    using follow_links_extends [of cfg w "take 20 args_url" 0 _ "\<lparr>visited = {args_url}, documents = [?doc]\<rparr>"]
    by auto
  ultimately have c: "crawl cfg w = ?doc # ds" by (simp add: crawl_def f)
  have "documents_fetched cfg w (crawl_page cfg w (base_url cfg) 0 ?init)"
    by (rule crawl_page_documents_fetched) (simp add: documents_fetched_def)
  then have nf: "\<forall>url. fetch w url args_timeout = None \<longrightarrow> url \<notin> set (map doc_url (crawl cfg w))"
    by (auto simp: documents_fetched_def crawl_def f list_all_iff)
  have conf: "\<forall>url depth st. fetch w url args_timeout = None \<longrightarrow>
             crawl_page cfg w url depth st = st \<or>
             crawl_page cfg w url depth st = st\<lparr>visited := insert url (visited st)\<rparr>"
    by (auto simp: crawl_page.simps f)
  have docs: "documents (crawl_page cfg w url depth st) = documents st"
    if "fetch w url args_timeout = None" for url depth st
    using conf that by (metis crawler.select_convs(2) crawler.surjective crawler.update_convs(1))
  have go: "\<forall>sub_string depth href links st next_url.
             (startswith href sub_string \<or> startswith href ''/'') \<longrightarrow>
             (if startswith href ''/'' then urljoin w args_url href else Some href) = Some next_url \<longrightarrow>
             fetch w next_url args_timeout = None \<longrightarrow>
               follow_links cfg w sub_string depth (href # links) st
                 = follow_links cfg w sub_string depth links (crawl_page cfg w next_url (depth + 1) st)
               \<and> documents (crawl_page cfg w next_url (depth + 1) st) = documents st"
    using docs by (simp add: f)
  show ?thesis using m c nf conf go by simp
qed

theorem transport_error_confined_witness:
  "CrawlerConfig ''https://ex.com/docs/'' 1 3 10 (1 / 2) default_user_agent = Inr broken_cfg
   \<and> urlparse_netloc broken_world ''https://ex.com/docs/'' = Some ''ex.com''
   \<and> fetch broken_world ''https://ex.com/docs/'' 10
       = Some (page [anchor ''https://ex.com/docs/broken'', anchor ''/docs/page2''])
   \<and> fetch broken_world ''https://ex.com/docs/broken'' 10 = None
   \<and> fst (main broken_world ''https://ex.com/docs/'' ''out/docs.json'' 1 3 10 (1 / 2)) = 0
   \<and> map doc_url (crawl broken_cfg broken_world) = [''https://ex.com/docs/'', ''https://ex.com/docs/page2'']
   \<and> ''https://ex.com/docs/broken'' \<notin> set (map doc_url (crawl broken_cfg broken_world))"
proof -
  have h1: "CrawlerConfig ''https://ex.com/docs/'' 1 3 10 (1 / 2) default_user_agent = Inr broken_cfg"
    by (simp add: CrawlerConfig_def broken_cfg_def startswith_def)
  have h2: "urlparse_netloc broken_world ''https://ex.com/docs/'' = Some ''ex.com''"
    by (simp add: broken_world_def url_eval)
  have h3: "fetch broken_world ''https://ex.com/docs/'' 10
       = Some (page [anchor ''https://ex.com/docs/broken'', anchor ''/docs/page2''])"
    by (simp add: broken_world_def)
  have h4: "write_file broken_world ''out/docs.json'' (JArray (map to_dict (crawl broken_cfg broken_world)))"
    by (simp add: broken_world_def)
  have h5: "print_result broken_world
              (JObject [(''docs'', JArray (map to_dict (crawl broken_cfg broken_world))),
                        (''status'', JString ''success'')])"
    by (simp add: broken_world_def)
  have h6: "fetch broken_world ''https://ex.com/docs/broken'' 10 = None"
    by (simp add: broken_world_def)
  show ?thesis
    using transport_error_confined [OF h1 h2 h3 h4 h5] h1 h2 h3 h6 by (simp add: broken_crawl)
qed

section \<open>Termination\<close>

text \<open>
  \<open>crawl_page\<close> and its loop are total functions: their definition above comes with
  its termination proof, whose measure falls with \<open>max_depth - depth\<close> from a call to
  the calls it makes, and with the number of links left inside the loop. The bound on
  the call stack is proved from the walk with the counter.
\<close>

lemma fuel_enough:
  "\<forall>k. nat (max_depth cfg + 1 - depth) + 1 \<le> k \<longrightarrow>
       crawl_page_fuel k cfg w url depth st = Some (crawl_page cfg w url depth st)"
  and fuel_enough_links:
  "\<forall>k. nat (max_depth cfg - depth) + 1 \<le> k \<longrightarrow>
       follow_links_fuel k cfg w sub_string depth links st
         = Some (follow_links cfg w sub_string depth links st)"
proof (induction cfg w url depth st and cfg w sub_string depth links st
       rule: crawl_page_follow_links.induct)
  case (1 cfg w url depth st)
  show ?case
  proof (intro allI impI)
    fix k assume k: "nat (max_depth cfg + 1 - depth) + 1 \<le> k"
    then obtain k' where k': "k = Suc k'" by (cases k) auto
    show "crawl_page_fuel k cfg w url depth st = Some (crawl_page cfg w url depth st)"
    proof (cases "depth > max_depth cfg \<or> int (card (visited st)) \<ge> max_pages cfg \<or> url \<in> visited st")
      case True
      then show ?thesis unfolding k' by (auto simp: crawl_page.simps)
    next
      case False
      then have kk: "nat (max_depth cfg - depth) + 1 \<le> k'" using k k' by auto
      show ?thesis
      proof (cases "fetch w url (timeout cfg)")
        case None
        then show ?thesis unfolding k' using False by (simp add: crawl_page.simps)
      next
        case (Some soup0)
        obtain content soup where e: "extract_text_content soup0 5000 = (content, soup)"
          by (cases "extract_text_content soup0 5000") auto
        show ?thesis unfolding k'
          using False Some e kk
            "1.IH" [OF _ _ refl Some refl e [symmetric] refl refl refl refl]
          by (simp add: crawl_page.simps)
      qed
    qed
  qed
next
  case (2 cfg w sub_string depth st)
  then show ?case by simp
next
  case (3 cfg w sub_string depth href links st)
  show ?case
  proof (intro allI impI)
    fix k assume k: "nat (max_depth cfg - depth) + 1 \<le> k"
    then have k1: "nat (max_depth cfg + 1 - (depth + 1)) + 1 \<le> k" by simp
    show "follow_links_fuel k cfg w sub_string depth (href # links) st
         = Some (follow_links cfg w sub_string depth (href # links) st)"
    proof (cases "startswith href sub_string \<or> startswith href ''/''")
      case False
      then show ?thesis using "3.IH"(3) k by simp
    next
      case True
      show ?thesis
      proof (cases "if startswith href ''/'' then urljoin w (base_url cfg) href else Some href")
        case None
        then show ?thesis using True by simp
      next
        case (Some next_url)
        show ?thesis
          using True Some "3.IH"(1) [OF True Some] "3.IH"(2) [OF True Some] k k1 by simp
      qed
    qed
  qed
qed

text \<open>
  C9. The walk terminates for every configuration and whatever the fetches return: a
  call of \<open>crawl_page\<close> at \<open>depth\<close> returns with at most \<open>max_depth + 1 - depth\<close> further
  calls stacked on it (each recursive call is made at \<open>depth + 1\<close>), so \<open>crawl\<close> returns
  with at most \<open>max_depth + 2\<close> calls of \<open>crawl_page\<close> active at a time, at the depths
  \<open>0\<close> to \<open>max_depth + 1\<close>; and a call returns at once, the state unchanged, when the
  depth exceeds \<open>max_depth\<close>, the page budget is used up, or the URL is visited already.
\<close>

theorem crawl_terminates:
  "crawl_page_fuel (nat (max_depth cfg + 1 - depth) + 1) cfg w url depth st
     = Some (crawl_page cfg w url depth st)
   \<and> crawl_fuel (nat (max_depth cfg + 1) + 1) cfg w = Some (crawl cfg w)
   \<and> (depth > max_depth cfg \<or> int (card (visited st)) \<ge> max_pages cfg \<or> url \<in> visited st
        \<longrightarrow> crawl_page cfg w url depth st = st)"
proof -
  have a: "crawl_page_fuel (nat (max_depth cfg + 1 - depth) + 1) cfg w url depth st
     = Some (crawl_page cfg w url depth st)" for url depth st
    by (rule fuel_enough [rule_format]) (rule order_refl)
  have b: "crawl_fuel (nat (max_depth cfg + 1) + 1) cfg w = Some (crawl cfg w)"
    using a [of 0 "base_url cfg" "\<lparr>visited = {}, documents = []\<rparr>"]
    by (simp add: crawl_fuel_def crawl_def)
  have g: "depth > max_depth cfg \<or> int (card (visited st)) \<ge> max_pages cfg \<or> url \<in> visited st
        \<longrightarrow> crawl_page cfg w url depth st = st"
    by (subst crawl_page.simps) auto
  show ?thesis by (intro conjI) (rule a, rule b, rule g)
qed

theorem crawl_terminates_witness:
  "crawl_page_fuel 3 broken_cfg broken_world ''https://ex.com/docs/'' 0 \<lparr>visited = {}, documents = []\<rparr>
     = Some (crawl_page broken_cfg broken_world ''https://ex.com/docs/'' 0 \<lparr>visited = {}, documents = []\<rparr>)
   \<and> crawl_fuel 3 broken_cfg broken_world = Some (crawl broken_cfg broken_world)
   \<and> crawl_page broken_cfg broken_world ''https://ex.com/docs/page2'' 2
        \<lparr>visited = {}, documents = []\<rparr> = \<lparr>visited = {}, documents = []\<rparr>"
proof -
  have m: "max_depth broken_cfg = 1" by (simp add: broken_cfg_def)
  show ?thesis
    using crawl_terminates [of broken_cfg 0 broken_world "''https://ex.com/docs/''" "\<lparr>visited = {}, documents = []\<rparr>"]
      crawl_terminates [of broken_cfg 2 broken_world "''https://ex.com/docs/page2''" "\<lparr>visited = {}, documents = []\<rparr>"]
    by (simp add: m numeral_3_eq_3)
qed

section \<open>The content extractor\<close>

text \<open>
  Both copies of \<open>extract_code_blocks\<close> return first what they take from the \<open>pre\<close>
  elements of the document they are given (in \<open>crawl_page\<close>, the document as the
  content extractor leaves it), in document order, then what they take from the \<open>code\<close>
  elements that have no \<open>pre\<close> element among their parents. \<open>TextExtractor\<close> takes the
  text of the element, stripped at its two ends; the older script takes
  \<open>get_text(strip=True)\<close>. On the page with \<open>print(1)\<close> in a \<open>code\<close> inside a \<open>pre\<close>,
  followed by the inline code \<open>x\<close>, both yield \<open>print(1)\<close> and \<open>x\<close>.
\<close>

lemma collect_pre_eq:
  "collect_pre pres acc = acc @ filter (\<lambda>t. t \<noteq> []) (map (\<lambda>pre. str_strip (get_text pre)) pres)"
  by (induction pres arbitrary: acc) (auto simp: Let_def)

lemma collect_code_eq:
  "collect_code codes acc =
     acc @ filter (\<lambda>t. t \<noteq> [])
             (map (\<lambda>(parents, code). str_strip (get_text code))
                (filter (\<lambda>(parents, code). ''pre'' \<notin> set parents) codes))"
  by (induction codes arbitrary: acc) (auto simp: Let_def)

lemma legacy_collect_pre_eq:
  "legacy_collect_pre pres acc = acc @ filter (\<lambda>t. t \<noteq> []) (map (get_text_strip []) pres)"
  by (induction pres arbitrary: acc) (auto simp: Let_def)

lemma legacy_collect_code_eq:
  "legacy_collect_code codes acc =
     acc @ filter (\<lambda>t. t \<noteq> [])
             (map (\<lambda>(parents, code). get_text_strip [] code)
                (filter (\<lambda>(parents, code). ''pre'' \<notin> set parents) codes))"
  by (induction codes arbitrary: acc) (auto simp: Let_def)

lemma code_blocks_pre_then_code:
  "extract_code_blocks soup =
     filter (\<lambda>t. t \<noteq> []) (map (\<lambda>pre. str_strip (get_text pre)) (find_all [''pre''] soup)) @
     filter (\<lambda>t. t \<noteq> [])
       (map (\<lambda>(parents, code). str_strip (get_text code))
          (filter (\<lambda>(parents, code). ''pre'' \<notin> set parents)
             (find_all_with_parents [''code''] soup)))"
  by (simp add: extract_code_blocks_def collect_pre_eq collect_code_eq)

lemma code_page_blocks: "extract_code_blocks code_page = [''print(1)'', ''x'']"
  by (simp add: code_page_def tree_eval string_eval Let_def)

lemma legacy_code_page_blocks: "legacy_extract_code_blocks code_page = [''print(1)'', ''x'']"
  by (simp add: code_page_def tree_eval string_eval Let_def)

lemma legacy_code_blocks_pre_then_code:
  "legacy_extract_code_blocks soup =
     filter (\<lambda>t. t \<noteq> []) (map (get_text_strip []) (find_all [''pre''] soup)) @
     filter (\<lambda>t. t \<noteq> [])
       (map (\<lambda>(parents, code). get_text_strip [] code)
          (filter (\<lambda>(parents, code). ''pre'' \<notin> set parents)
             (find_all_with_parents [''code''] soup)))"
  by (simp add: legacy_extract_code_blocks_def legacy_collect_pre_eq legacy_collect_code_eq)

text \<open>
  C6. The claim is that every entry is the text of its element, stripped at the two
  ends. \<open>TextExtractor.extract_code_blocks\<close> does that (\<open>code_blocks_pre_then_code\<close>
  above). \<open>extract_code_blocks\<close> of \<open>web_crawler.py\<close>, which the claim covers too, does
  not: it strips every string inside the element on its own and joins what is left, so
  on the \<open>pre\<close> element with the highlighted \<open>import os\<close> it returns \<open>importos\<close>, where
  the stripped text of the element, and the result of \<open>TextExtractor\<close>, is \<open>import os\<close>.
\<close>

theorem legacy_code_blocks_lose_spacing:
  "legacy_extract_code_blocks highlighted_page = [''importos'']
   \<and> extract_code_blocks highlighted_page = [''import os'']
   \<and> map (\<lambda>pre. str_strip (get_text pre)) (find_all [''pre''] highlighted_page) = [''import os'']"
  by (simp add: highlighted_page_def tree_eval string_eval Let_def)

lemma content_elements_eq:
  "content_elements sibs =
     filter (\<lambda>t. t \<noteq> []) (map (get_text_strip []) (takeWhile (\<lambda>x. \<not> ends_section x) sibs))"
  by (induction sibs rule: content_elements.induct) (auto simp: Let_def ends_section_def)

lemma legacy_content_elements_eq:
  "legacy_content_elements sibs =
     filter (\<lambda>t. t \<noteq> [])
       (map (get_text_strip []) (takeWhile (\<lambda>x. \<not> legacy_ends_section x) sibs))"
  by (induction sibs rule: legacy_content_elements.induct) (auto simp: Let_def legacy_ends_section_def)

lemma headings_page_content:
  "fst (extract_text_content headings_page 5000)
       = [CHR 0x0A, CHR 0x0A] @ ''Intro'' @ [CHR 0x0A] @ ''first'' @ [CHR 0x0A] @ ''Note''
          @ [CHR 0x0A] @ ''second''
          @ [CHR 0x0A, CHR 0x0A] @ ''Note'' @ [CHR 0x0A] @ ''second''
          @ [CHR 0x0A, CHR 0x0A] @ ''Next''"
  by (simp add: headings_page_def tree_eval string_eval Let_def)

lemma legacy_headings_page_content:
  "fst (legacy_extract_text_content headings_page)
       = [CHR 0x0A, CHR 0x0A] @ ''Intro'' @ [CHR 0x0A] @ ''first''
          @ [CHR 0x0A, CHR 0x0A] @ ''Note'' @ [CHR 0x0A] @ ''second''
          @ [CHR 0x0A, CHR 0x0A] @ ''Next''"
  by (simp add: headings_page_def tree_eval string_eval Let_def)

text \<open>
  C7, as amended. In \<open>TextExtractor.extract_text_content\<close> the scan of a heading's
  following siblings collects the non-empty texts of the siblings before the first
  \<open>h1\<close>, \<open>h2\<close>, \<open>h3\<close> or \<open>h4\<close> element among them, or of all of them when there is
  none: an \<open>h5\<close> or \<open>h6\<close> sibling does not stop the scan, and its text goes into the
  section of the heading before it, as on the page whose second heading is an \<open>h5\<close>.
  In \<open>extract_text_content\<close> of the older \<open>web_crawler.py\<close> the scan collects the
  non-empty texts of the siblings before the first \<open>h1\<close> to \<open>h6\<close> element among them:
  there an \<open>h5\<close> or \<open>h6\<close> sibling stops the scan as well.
\<close>

theorem section_scan_stops_at_h1_to_h4:
  "content_elements sibs =
     filter (\<lambda>t. t \<noteq> []) (map (get_text_strip []) (takeWhile (\<lambda>x. \<not> ends_section x) sibs))
   \<and> ends_section (Tag n attrs cs) = (n = ''h1'' \<or> n = ''h2'' \<or> n = ''h3'' \<or> n = ''h4'')
   \<and> \<not> ends_section (NavigableString s) \<and> \<not> ends_section (Special c s)
   \<and> fst (extract_text_content headings_page 5000)
       = [CHR 0x0A, CHR 0x0A] @ ''Intro'' @ [CHR 0x0A] @ ''first'' @ [CHR 0x0A] @ ''Note''
          @ [CHR 0x0A] @ ''second''
          @ [CHR 0x0A, CHR 0x0A] @ ''Note'' @ [CHR 0x0A] @ ''second''
          @ [CHR 0x0A, CHR 0x0A] @ ''Next''
   \<and> legacy_content_elements sibs =
     filter (\<lambda>t. t \<noteq> [])
       (map (get_text_strip []) (takeWhile (\<lambda>x. \<not> legacy_ends_section x) sibs))
   \<and> legacy_ends_section (Tag n attrs cs)
       = (n = ''h1'' \<or> n = ''h2'' \<or> n = ''h3'' \<or> n = ''h4'' \<or> n = ''h5'' \<or> n = ''h6'')
   \<and> \<not> legacy_ends_section (NavigableString s) \<and> \<not> legacy_ends_section (Special c s)"
  using content_elements_eq [of sibs] legacy_content_elements_eq [of sibs] headings_page_content
  by (auto simp: ends_section_def legacy_ends_section_def)

text \<open>
  C7 as it is stated covers \<open>extract_text_content\<close> of \<open>web_crawler.py\<close> too, and fails
  there: that scan stops at an \<open>h5\<close> and at an \<open>h6\<close> element, where the scan up to the
  next \<open>h1\<close> to \<open>h4\<close> element goes on; on the page whose second heading is an \<open>h5\<close>
  the first section ends before that heading.
\<close>

theorem legacy_section_scan_stops_at_h5:
  "legacy_content_elements
     [Tag ''p'' [] [NavigableString ''first''], Tag ''h5'' [] [NavigableString ''Note''],
      Tag ''p'' [] [NavigableString ''second'']] = [''first'']
   \<and> legacy_content_elements
     [Tag ''p'' [] [NavigableString ''first''], Tag ''h6'' [] [NavigableString ''Note''],
      Tag ''p'' [] [NavigableString ''second'']] = [''first'']
   \<and> filter (\<lambda>t. t \<noteq> [])
       (map (get_text_strip [])
          (takeWhile (\<lambda>x. \<not> ends_section x)
             [Tag ''p'' [] [NavigableString ''first''], Tag ''h5'' [] [NavigableString ''Note''],
              Tag ''p'' [] [NavigableString ''second'']]))
       = [''first'', ''Note'', ''second'']
   \<and> fst (legacy_extract_text_content headings_page)
       = [CHR 0x0A, CHR 0x0A] @ ''Intro'' @ [CHR 0x0A] @ ''first''
          @ [CHR 0x0A, CHR 0x0A] @ ''Note'' @ [CHR 0x0A] @ ''second''
          @ [CHR 0x0A, CHR 0x0A] @ ''Next''"
  using legacy_headings_page_content
  by (simp add: tree_eval string_eval ends_section_def Let_def)

section \<open>The output documents\<close>

text \<open>
  C10, as amended. Every document object that \<open>crawl.py\<close> writes (\<open>main\<close> maps
  \<open>CrawledDocument.to_dict\<close> over the documents) has a top-level \<open>code_blocks\<close> field,
  the list of the document's code blocks, and the \<open>code_blocks\<close> field inside its
  \<open>metadata\<close> object has the same value. Every document object of the older
  \<open>web_crawler.py\<close>, whatever its fields and whatever page it is built from, has the
  list inside \<open>metadata\<close> and no top-level \<open>code_blocks\<close> field.
\<close>

theorem to_dict_code_blocks_twice:
  "obj_get ''code_blocks'' (to_dict doc) = Some (JArray (map JString (doc_code_blocks doc)))
   \<and> Option.bind (obj_get ''metadata'' (to_dict doc)) (obj_get ''code_blocks'')
       = obj_get ''code_blocks'' (to_dict doc)
   \<and> obj_get ''code_blocks'' (legacy_document url title_text content code_blocks depth now) = None
   \<and> Option.bind (obj_get ''metadata'' (legacy_document url title_text content code_blocks depth now))
        (obj_get ''code_blocks'') = Some (JArray (map JString code_blocks))
   \<and> obj_get ''code_blocks'' (legacy_crawled_document w url depth soup0) = None
   \<and> Option.bind (obj_get ''metadata'' (legacy_crawled_document w url depth soup0))
        (obj_get ''code_blocks'')
       = Some (JArray (map JString
                 (legacy_extract_code_blocks (snd (legacy_extract_text_content soup0)))))"
  by (simp add: to_dict_def legacy_document_def legacy_crawled_document_def Let_def split: prod.splits)

text \<open>
  C10 as it is stated covers the document that \<open>crawl_page\<close> of \<open>web_crawler.py\<close>
  builds and its \<open>main\<close> writes, and fails there: the object built for the page with
  the two code blocks has no top-level \<open>code_blocks\<close> field.
\<close>

theorem legacy_document_no_top_level_code_blocks:
  "legacy_crawled_document broken_world ''https://ex.com/docs/'' 0 code_page
     = JObject
         [(''url'', JString ''https://ex.com/docs/''),
          (''title'', JString ''https://ex.com/docs/''),
          (''content'', JString ([CHR 0x0A, CHR 0x0A] @ ''print(1)'' @ [CHR 0x0A] @ ''x'')),
          (''metadata'',
             JObject
               [(''code_blocks'', JArray [JString ''print(1)'', JString ''x'']),
                (''depth'', JInt 0),
                (''crawled_at'', JString ''2024-01-01 00:00:00'')])]
   \<and> obj_get ''code_blocks''
       (legacy_crawled_document broken_world ''https://ex.com/docs/'' 0 code_page) = None"
  by (simp add: code_page_def tree_eval string_eval legacy_document_def broken_world_def Let_def)

end
